theory Spec2Isabelle
  imports Complex_Main "HOL-Library.Monad_Syntax" "HOL-Library.AList"
begin

section \<open>Data model (models.py)\<close>

text \<open>
  Python's unbounded \<open>int\<close> is \<open>int\<close>. A Python \<open>float\<close> is modelled by a
  \<open>real\<close>: arithmetic on times, percentages and scores is exact here, and the rounding of
  IEEE doubles (which only shows for integers beyond \<open>2^53\<close> and for sums that are not
  representable) is outside the model.
\<close>

datatype Capability = PLANNING | SEARCHING | WRITING | EVALUATION | CLARIFICATION | EMAIL

datatype TrailStatus = PENDING | ACTIVE | COMPLETED | ABANDONED

datatype ResearchState =
  INITIALIZING | CLARIFYING | PLANNING | SEARCHING | EVALUATING | TRAIL_FOLLOWING
  | SYNTHESIZING | COMPLETED | FAILED

text \<open>The \<open>value\<close> of an enum member, and the lookup \<open>Enum(value)\<close>, which raises
  \<open>ValueError\<close> (\<open>None\<close>) on a string that is no member's value.\<close>

fun TrailStatus_value :: "TrailStatus \<Rightarrow> string" where
  "TrailStatus_value PENDING = ''pending''"
| "TrailStatus_value ACTIVE = ''active''"
| "TrailStatus_value TrailStatus.COMPLETED = ''completed''"
| "TrailStatus_value ABANDONED = ''abandoned''"

definition TrailStatus_of_value :: "string \<Rightarrow> TrailStatus option" where
  "TrailStatus_of_value v =
     find (\<lambda>m. TrailStatus_value m = v) [PENDING, ACTIVE, TrailStatus.COMPLETED, ABANDONED]"

fun ResearchState_value :: "ResearchState \<Rightarrow> string" where
  "ResearchState_value INITIALIZING = ''initializing''"
| "ResearchState_value CLARIFYING = ''clarifying''"
| "ResearchState_value ResearchState.PLANNING = ''planning''"
| "ResearchState_value ResearchState.SEARCHING = ''searching''"
| "ResearchState_value EVALUATING = ''evaluating''"
| "ResearchState_value TRAIL_FOLLOWING = ''trail_following''"
| "ResearchState_value SYNTHESIZING = ''synthesizing''"
| "ResearchState_value ResearchState.COMPLETED = ''completed''"
| "ResearchState_value FAILED = ''failed''"

definition ResearchState_of_value :: "string \<Rightarrow> ResearchState option" where
  "ResearchState_of_value v =
     find (\<lambda>m. ResearchState_value m = v)
       [INITIALIZING, CLARIFYING, ResearchState.PLANNING, ResearchState.SEARCHING, EVALUATING,
        TRAIL_FOLLOWING, SYNTHESIZING, ResearchState.COMPLETED, FAILED]"

text \<open>
  The plain nested-map form that \<open>to_dict\<close> produces and \<open>from_dict\<close> reads: Python
  values built from \<open>None\<close>, numbers, strings, lists and dicts with string keys. A dict
  is an association list in insertion order.
\<close>

datatype pyval =
  PNone | PBool bool | PInt int | PFloat real | PStr string
  | PList "pyval list" | PDict "(string \<times> pyval) list"

text \<open>
  A dataclass does not check the types of its fields at run time; a HOL record does. The
  readers below pick a value of the field's declared type out of a \<open>pyval\<close> and fail
  (\<open>None\<close>) on any other. An int is accepted where a float is declared.
\<close>

fun as_str :: "pyval \<Rightarrow> string option" where
  "as_str (PStr s) = Some s"
| "as_str _ = None"

fun as_opt_str :: "pyval \<Rightarrow> string option option" where
  "as_opt_str PNone = Some None"
| "as_opt_str (PStr s) = Some (Some s)"
| "as_opt_str _ = None"

fun as_int :: "pyval \<Rightarrow> int option" where
  "as_int (PInt i) = Some i"
| "as_int _ = None"

fun as_float :: "pyval \<Rightarrow> real option" where
  "as_float (PFloat r) = Some r"
| "as_float (PInt i) = Some (of_int i)"
| "as_float _ = None"

fun as_list :: "pyval \<Rightarrow> pyval list option" where
  "as_list (PList xs) = Some xs"
| "as_list _ = None"

fun as_dict :: "pyval \<Rightarrow> (string \<times> pyval) list option" where
  "as_dict (PDict d) = Some d"
| "as_dict _ = None"

text \<open>A list comprehension whose body may raise: the first failure fails the whole.\<close>

fun map_option_list :: "('a \<Rightarrow> 'b option) \<Rightarrow> 'a list \<Rightarrow> 'b list option" where
  "map_option_list f [] = Some []"
| "map_option_list f (x # xs) =
     (case f x of None \<Rightarrow> None
      | Some y \<Rightarrow> (case map_option_list f xs of None \<Rightarrow> None | Some ys \<Rightarrow> Some (y # ys)))"

definition as_str_list :: "pyval \<Rightarrow> string list option" where
  "as_str_list v = (case as_list v of None \<Rightarrow> None | Some xs \<Rightarrow> map_option_list as_str xs)"

definition as_str_dict :: "pyval \<Rightarrow> (string \<times> string) list option" where
  "as_str_dict v =
     (case as_dict v of None \<Rightarrow> None
      | Some d \<Rightarrow>
          map_option_list (\<lambda>(k, x). case as_str x of None \<Rightarrow> None | Some s \<Rightarrow> Some (k, s)) d)"

text \<open>
  \<open>cls(**data)\<close>: a key that is no field of the dataclass raises \<open>TypeError\<close>, a field
  without default must be present, a field with a default takes it when absent.
  \<open>data.get(k, d)\<close> reads like a defaulted field.
\<close>

definition kwargs_known :: "string list \<Rightarrow> (string \<times> pyval) list \<Rightarrow> unit option" where
  "kwargs_known fields data =
     (if list_all (\<lambda>k. k \<in> set fields) (map fst data) then Some () else None)"

definition required :: "string \<Rightarrow> (pyval \<Rightarrow> 'a option) \<Rightarrow> (string \<times> pyval) list \<Rightarrow> 'a option" where
  "required k conv data = (case map_of data k of None \<Rightarrow> None | Some v \<Rightarrow> conv v)"

definition optional ::
  "string \<Rightarrow> (pyval \<Rightarrow> 'a option) \<Rightarrow> 'a \<Rightarrow> (string \<times> pyval) list \<Rightarrow> 'a option" where
  "optional k conv dflt data = (case map_of data k of None \<Rightarrow> Some dflt | Some v \<Rightarrow> conv v)"

text \<open>
  \<open>datetime\<close> belongs to Python's standard library. Its values are opaque here (a tag),
  and \<open>isoformat\<close>, \<open>fromisoformat\<close> and \<open>now\<close> are parameters of the functions that
  call them; \<open>fromisoformat\<close> returns \<open>None\<close> where the library raises \<open>ValueError\<close>.
\<close>

datatype datetime = Datetime string

record ResourceUsage =
  tokens_used :: int
  api_calls :: int
  time_seconds :: real

definition ResourceUsage_default :: ResourceUsage where
  "ResourceUsage_default = \<lparr>tokens_used = 0, api_calls = 0, time_seconds = 0\<rparr>"

text \<open>\<open>ResourceUsage.add\<close> mutates \<open>self\<close>; the model returns the updated value.\<close>

definition add :: "ResourceUsage \<Rightarrow> ResourceUsage \<Rightarrow> ResourceUsage" where
  "add self other =
     self\<lparr>tokens_used := tokens_used self + tokens_used other,
          api_calls := api_calls self + api_calls other,
          time_seconds := time_seconds self + time_seconds other\<rparr>"

definition ResourceUsage_to_dict :: "ResourceUsage \<Rightarrow> pyval" where
  "ResourceUsage_to_dict self =
     PDict [(''tokens_used'', PInt (tokens_used self)),
            (''api_calls'', PInt (api_calls self)),
            (''time_seconds'', PFloat (time_seconds self))]"

definition ResourceUsage_from_dict :: "pyval \<Rightarrow> ResourceUsage option" where
  "ResourceUsage_from_dict v = do {
     data \<leftarrow> as_dict v;
     _ \<leftarrow> kwargs_known [''tokens_used'', ''api_calls'', ''time_seconds''] data;
     tu \<leftarrow> optional ''tokens_used'' as_int 0 data;
     ac \<leftarrow> optional ''api_calls'' as_int 0 data;
     ts \<leftarrow> optional ''time_seconds'' as_float 0 data;
     Some \<lparr>tokens_used = tu, api_calls = ac, time_seconds = ts\<rparr>
   }"

record Finding =
  id :: string
  content :: string
  source :: string
  timestamp :: datetime
  confidence :: real
  metadata :: "(string \<times> pyval) list"

definition Finding_to_dict :: "(datetime \<Rightarrow> string) \<Rightarrow> Finding \<Rightarrow> pyval" where
  "Finding_to_dict isoformat self =
     PDict [(''id'', PStr (Finding.id self)),
            (''content'', PStr (content self)),
            (''source'', PStr (source self)),
            (''timestamp'', PStr (isoformat (Finding.timestamp self))),
            (''confidence'', PFloat (Finding.confidence self)),
            (''metadata'', PDict (Finding.metadata self))]"

definition Finding_from_dict :: "(string \<Rightarrow> datetime option) \<Rightarrow> pyval \<Rightarrow> Finding option" where
  "Finding_from_dict fromisoformat v = do {
     data \<leftarrow> as_dict v;
     ts \<leftarrow> required ''timestamp'' (\<lambda>x. Option.bind (as_str x) fromisoformat) data;
     _ \<leftarrow> kwargs_known
            [''id'', ''content'', ''source'', ''timestamp'', ''confidence'', ''metadata''] data;
     i \<leftarrow> required ''id'' as_str data;
     c \<leftarrow> required ''content'' as_str data;
     s \<leftarrow> required ''source'' as_str data;
     cf \<leftarrow> optional ''confidence'' as_float 1 data;
     md \<leftarrow> optional ''metadata'' as_dict [] data;
     Some \<lparr>Finding.id = i, content = c, source = s, Finding.timestamp = ts,
           Finding.confidence = cf, Finding.metadata = md\<rparr>
   }"

record Gap =
  description :: string
  priority :: real
  suggested_queries :: "string list"

definition Gap_to_dict :: "Gap \<Rightarrow> pyval" where
  "Gap_to_dict self =
     PDict [(''description'', PStr (Gap.description self)),
            (''priority'', PFloat (priority self)),
            (''suggested_queries'', PList (map PStr (suggested_queries self)))]"

definition Gap_from_dict :: "pyval \<Rightarrow> Gap option" where
  "Gap_from_dict v = do {
     data \<leftarrow> as_dict v;
     _ \<leftarrow> kwargs_known [''description'', ''priority'', ''suggested_queries''] data;
     d \<leftarrow> required ''description'' as_str data;
     p \<leftarrow> required ''priority'' as_float data;
     sq \<leftarrow> optional ''suggested_queries'' as_str_list [] data;
     Some \<lparr>Gap.description = d, priority = p, suggested_queries = sq\<rparr>
   }"

record QualityScore =
  completeness :: real
  credibility :: real
  relevance :: real
  confidence :: real
  overall :: real
  gaps_identified :: "Gap list"

definition QualityScore_to_dict :: "QualityScore \<Rightarrow> pyval" where
  "QualityScore_to_dict self =
     PDict [(''completeness'', PFloat (completeness self)),
            (''credibility'', PFloat (credibility self)),
            (''relevance'', PFloat (relevance self)),
            (''confidence'', PFloat (QualityScore.confidence self)),
            (''overall'', PFloat (overall self)),
            (''gaps_identified'', PList (map Gap_to_dict (gaps_identified self)))]"

definition QualityScore_from_dict :: "pyval \<Rightarrow> QualityScore option" where
  "QualityScore_from_dict v = do {
     data \<leftarrow> as_dict v;
     gs \<leftarrow> optional ''gaps_identified''
             (\<lambda>x. Option.bind (as_list x) (map_option_list Gap_from_dict)) [] data;
     _ \<leftarrow> kwargs_known
            [''completeness'', ''credibility'', ''relevance'', ''confidence'', ''overall'',
             ''gaps_identified''] data;
     cm \<leftarrow> required ''completeness'' as_float data;
     cr \<leftarrow> required ''credibility'' as_float data;
     re \<leftarrow> required ''relevance'' as_float data;
     cf \<leftarrow> required ''confidence'' as_float data;
     ov \<leftarrow> required ''overall'' as_float data;
     Some \<lparr>completeness = cm, credibility = cr, relevance = re, QualityScore.confidence = cf,
           overall = ov, gaps_identified = gs\<rparr>
   }"

record HandoffRecord =
  from_agent :: string
  to_agent :: string
  reason :: string
  timestamp :: datetime
  context_summary :: string

definition HandoffRecord_to_dict :: "(datetime \<Rightarrow> string) \<Rightarrow> HandoffRecord \<Rightarrow> pyval" where
  "HandoffRecord_to_dict isoformat self =
     PDict [(''from_agent'', PStr (from_agent self)),
            (''to_agent'', PStr (to_agent self)),
            (''reason'', PStr (HandoffRecord.reason self)),
            (''timestamp'', PStr (isoformat (HandoffRecord.timestamp self))),
            (''context_summary'', PStr (context_summary self))]"

definition HandoffRecord_from_dict ::
  "(string \<Rightarrow> datetime option) \<Rightarrow> pyval \<Rightarrow> HandoffRecord option" where
  "HandoffRecord_from_dict fromisoformat v = do {
     data \<leftarrow> as_dict v;
     ts \<leftarrow> required ''timestamp'' (\<lambda>x. Option.bind (as_str x) fromisoformat) data;
     _ \<leftarrow> kwargs_known
            [''from_agent'', ''to_agent'', ''reason'', ''timestamp'', ''context_summary''] data;
     fa \<leftarrow> required ''from_agent'' as_str data;
     ta \<leftarrow> required ''to_agent'' as_str data;
     r \<leftarrow> required ''reason'' as_str data;
     cs \<leftarrow> required ''context_summary'' as_str data;
     Some \<lparr>from_agent = fa, to_agent = ta, HandoffRecord.reason = r,
           HandoffRecord.timestamp = ts, context_summary = cs\<rparr>
   }"

section \<open>Budget (budget.py)\<close>

record Operation =
  name :: string
  estimated_tokens :: int
  estimated_api_calls :: int
  estimated_time_seconds :: real

definition to_usage :: "Operation \<Rightarrow> ResourceUsage" where
  "to_usage self =
     \<lparr>tokens_used = estimated_tokens self,
      api_calls = estimated_api_calls self,
      time_seconds = estimated_time_seconds self\<rparr>"

record ResearchBudget =
  max_tokens :: int
  max_time_seconds :: real
  max_api_calls :: int
  max_trail_depth :: int
  current_usage :: ResourceUsage
  trail_depth :: int

text \<open>The dataclass constructor with its two defaulted fields left out.\<close>

definition ResearchBudget_new :: "int \<Rightarrow> real \<Rightarrow> int \<Rightarrow> int \<Rightarrow> ResearchBudget" where
  "ResearchBudget_new mt mts mac mtd =
     \<lparr>max_tokens = mt, max_time_seconds = mts, max_api_calls = mac, max_trail_depth = mtd,
      current_usage = ResourceUsage_default, trail_depth = 0\<rparr>"

definition can_afford :: "ResearchBudget \<Rightarrow> Operation \<Rightarrow> bool" where
  "can_afford self operation =
     (if tokens_used (current_usage self) + estimated_tokens operation > max_tokens self
      then False
      else if api_calls (current_usage self) + estimated_api_calls operation > max_api_calls self
      then False
      else if time_seconds (current_usage self) + estimated_time_seconds operation
                > max_time_seconds self
      then False
      else True)"

definition can_afford_trail :: "ResearchBudget \<Rightarrow> bool" where
  "can_afford_trail self \<longleftrightarrow> trail_depth self < max_trail_depth self"

definition consume :: "ResearchBudget \<Rightarrow> Operation \<Rightarrow> ResearchBudget" where
  "consume self operation =
     (let usage = to_usage operation
      in self\<lparr>current_usage := add (current_usage self) usage\<rparr>)"

definition consume_usage :: "ResearchBudget \<Rightarrow> ResourceUsage \<Rightarrow> ResearchBudget" where
  "consume_usage self usage = self\<lparr>current_usage := add (current_usage self) usage\<rparr>"

definition increment_trail_depth :: "ResearchBudget \<Rightarrow> ResearchBudget" where
  "increment_trail_depth self = self\<lparr>trail_depth := trail_depth self + 1\<rparr>"

definition decrement_trail_depth :: "ResearchBudget \<Rightarrow> ResearchBudget" where
  "decrement_trail_depth self =
     (if trail_depth self > 0 then self\<lparr>trail_depth := trail_depth self - 1\<rparr> else self)"

definition remaining :: "ResearchBudget \<Rightarrow> ResourceUsage" where
  "remaining self =
     \<lparr>tokens_used = max 0 (max_tokens self - tokens_used (current_usage self)),
      api_calls = max 0 (max_api_calls self - api_calls (current_usage self)),
      time_seconds = max 0 (max_time_seconds self - time_seconds (current_usage self))\<rparr>"

text \<open>
  \<open>utilization_percent\<close> returns a dict with four keys; it is an association list in the
  order of the dict literal. \<open>/\<close> on two Python ints is true division.
\<close>

definition utilization_percent :: "ResearchBudget \<Rightarrow> (string \<times> real) list" where
  "utilization_percent self =
     [(''tokens'',
         if max_tokens self > 0
         then of_int (tokens_used (current_usage self)) / of_int (max_tokens self) * 100 else 0),
      (''api_calls'',
         if max_api_calls self > 0
         then of_int (api_calls (current_usage self)) / of_int (max_api_calls self) * 100 else 0),
      (''time'',
         if max_time_seconds self > 0
         then time_seconds (current_usage self) / max_time_seconds self * 100 else 0),
      (''trail_depth'',
         if max_trail_depth self > 0
         then of_int (trail_depth self) / of_int (max_trail_depth self) * 100 else 0)]"

definition is_exhausted :: "ResearchBudget \<Rightarrow> bool" where
  "is_exhausted self \<longleftrightarrow>
     tokens_used (current_usage self) \<ge> max_tokens self \<or>
     api_calls (current_usage self) \<ge> max_api_calls self \<or>
     time_seconds (current_usage self) \<ge> max_time_seconds self"

definition is_near_limit :: "ResearchBudget \<Rightarrow> real \<Rightarrow> bool" where
  "is_near_limit self threshold =
     (let util = utilization_percent self
      in list_ex (\<lambda>v. v \<ge> threshold * 100) (map snd util))"

text \<open>Python's \<open>int(x)\<close> on a float truncates toward zero.\<close>

definition py_int :: "real \<Rightarrow> int" where
  "py_int x = (if 0 \<le> x then \<lfloor>x\<rfloor> else \<lceil>x\<rceil>)"

definition allocate_for_trail :: "ResearchBudget \<Rightarrow> real \<Rightarrow> ResearchBudget" where
  "allocate_for_trail self percentage =
     (let remaining = remaining self
      in ResearchBudget_new
           (py_int (of_int (tokens_used remaining) * percentage))
           (time_seconds remaining * percentage)
           (py_int (of_int (api_calls remaining) * percentage))
           (max 1 (max_trail_depth self - trail_depth self - 1)))"

definition create_default :: ResearchBudget where
  "create_default = ResearchBudget_new 50000 300 50 3"

definition create_development :: ResearchBudget where
  "create_development = ResearchBudget_new 10000 60 10 1"

definition create_production :: ResearchBudget where
  "create_production = ResearchBudget_new 200000 600 200 5"

definition ResearchBudget_to_dict :: "ResearchBudget \<Rightarrow> pyval" where
  "ResearchBudget_to_dict self =
     PDict [(''max_tokens'', PInt (max_tokens self)),
            (''max_time_seconds'', PFloat (max_time_seconds self)),
            (''max_api_calls'', PInt (max_api_calls self)),
            (''max_trail_depth'', PInt (max_trail_depth self)),
            (''current_usage'', ResourceUsage_to_dict (current_usage self)),
            (''trail_depth'', PInt (trail_depth self))]"

definition ResearchBudget_from_dict :: "pyval \<Rightarrow> ResearchBudget option" where
  "ResearchBudget_from_dict v = do {
     data \<leftarrow> as_dict v;
     cu \<leftarrow> (case map_of data ''current_usage'' of
              None \<Rightarrow> ResourceUsage_from_dict (PDict [])
            | Some x \<Rightarrow> ResourceUsage_from_dict x);
     _ \<leftarrow> kwargs_known
            [''max_tokens'', ''max_time_seconds'', ''max_api_calls'', ''max_trail_depth'',
             ''current_usage'', ''trail_depth''] data;
     mt \<leftarrow> required ''max_tokens'' as_int data;
     mts \<leftarrow> required ''max_time_seconds'' as_float data;
     mac \<leftarrow> required ''max_api_calls'' as_int data;
     mtd \<leftarrow> required ''max_trail_depth'' as_int data;
     td \<leftarrow> optional ''trail_depth'' as_int 0 data;
     Some \<lparr>max_tokens = mt, max_time_seconds = mts, max_api_calls = mac,
           max_trail_depth = mtd, current_usage = cu, trail_depth = td\<rparr>
   }"

section \<open>Trails and the research context (models.py)\<close>

text \<open>
  A trail holds its budget by value: each trail owns the budget allocated to it, as the
  coordinator creates one per trail.
\<close>

record ResearchTrail =
  id :: string
  origin_finding_id :: "string option"
  trail_query :: string
  relevance_score :: real
  budget_allocated :: ResearchBudget
  findings :: "Finding list"
  status :: TrailStatus
  breadcrumbs :: "string list"

definition ResearchTrail_to_dict :: "(datetime \<Rightarrow> string) \<Rightarrow> ResearchTrail \<Rightarrow> pyval" where
  "ResearchTrail_to_dict isoformat self =
     PDict [(''id'', PStr (ResearchTrail.id self)),
            (''origin_finding_id'',
               (case origin_finding_id self of None \<Rightarrow> PNone | Some i \<Rightarrow> PStr i)),
            (''trail_query'', PStr (ResearchTrail.trail_query self)),
            (''relevance_score'', PFloat (ResearchTrail.relevance_score self)),
            (''budget_allocated'', ResearchBudget_to_dict (budget_allocated self)),
            (''findings'', PList (map (Finding_to_dict isoformat) (ResearchTrail.findings self))),
            (''status'', PStr (TrailStatus_value (status self))),
            (''breadcrumbs'', PList (map PStr (ResearchTrail.breadcrumbs self)))]"

definition ResearchTrail_from_dict ::
  "(string \<Rightarrow> datetime option) \<Rightarrow> pyval \<Rightarrow> ResearchTrail option" where
  "ResearchTrail_from_dict fromisoformat v = do {
     data \<leftarrow> as_dict v;
     ba \<leftarrow> required ''budget_allocated'' ResearchBudget_from_dict data;
     fs \<leftarrow> optional ''findings''
             (\<lambda>x. Option.bind (as_list x) (map_option_list (Finding_from_dict fromisoformat)))
             [] data;
     st \<leftarrow> required ''status'' (\<lambda>x. Option.bind (as_str x) TrailStatus_of_value) data;
     _ \<leftarrow> kwargs_known
            [''id'', ''origin_finding_id'', ''trail_query'', ''relevance_score'',
             ''budget_allocated'', ''findings'', ''status'', ''breadcrumbs''] data;
     i \<leftarrow> required ''id'' as_str data;
     ofi \<leftarrow> required ''origin_finding_id'' as_opt_str data;
     tq \<leftarrow> required ''trail_query'' as_str data;
     rs \<leftarrow> required ''relevance_score'' as_float data;
     bc \<leftarrow> optional ''breadcrumbs'' as_str_list [] data;
     Some \<lparr>ResearchTrail.id = i, origin_finding_id = ofi, ResearchTrail.trail_query = tq,
           ResearchTrail.relevance_score = rs, budget_allocated = ba,
           ResearchTrail.findings = fs, status = st, ResearchTrail.breadcrumbs = bc\<rparr>
   }"

record ResearchContext =
  query :: string
  state :: ResearchState
  clarifications :: "(string \<times> string) list"
  findings :: "Finding list"
  research_trails :: "ResearchTrail list"
  budget_used :: ResourceUsage
  quality_scores :: "QualityScore list"
  handoff_history :: "HandoffRecord list"
  metadata :: "(string \<times> pyval) list"
  created_at :: datetime
  updated_at :: datetime

text \<open>The constructor \<open>ResearchContext(query=q)\<close>; both timestamps default to
  \<open>datetime.now()\<close>, read once each.\<close>

definition ResearchContext_new :: "datetime \<Rightarrow> datetime \<Rightarrow> string \<Rightarrow> ResearchContext" where
  "ResearchContext_new now1 now2 q =
     \<lparr>query = q, state = INITIALIZING, clarifications = [], ResearchContext.findings = [],
      research_trails = [], budget_used = ResourceUsage_default, quality_scores = [],
      handoff_history = [], ResearchContext.metadata = [], created_at = now1,
      updated_at = now2\<rparr>"

definition add_finding :: "datetime \<Rightarrow> Finding \<Rightarrow> ResearchContext \<Rightarrow> ResearchContext" where
  "add_finding now finding self =
     self\<lparr>ResearchContext.findings := ResearchContext.findings self @ [finding],
          updated_at := now\<rparr>"

definition add_trail :: "datetime \<Rightarrow> ResearchTrail \<Rightarrow> ResearchContext \<Rightarrow> ResearchContext" where
  "add_trail now trail self =
     self\<lparr>research_trails := research_trails self @ [trail], updated_at := now\<rparr>"

definition add_handoff :: "datetime \<Rightarrow> HandoffRecord \<Rightarrow> ResearchContext \<Rightarrow> ResearchContext" where
  "add_handoff now handoff self =
     self\<lparr>handoff_history := handoff_history self @ [handoff], updated_at := now\<rparr>"

definition update_state :: "datetime \<Rightarrow> ResearchState \<Rightarrow> ResearchContext \<Rightarrow> ResearchContext" where
  "update_state now new_state self = self\<lparr>state := new_state, updated_at := now\<rparr>"

definition add_clarification ::
  "datetime \<Rightarrow> string \<Rightarrow> string \<Rightarrow> ResearchContext \<Rightarrow> ResearchContext" where
  "add_clarification now question answer self =
     self\<lparr>clarifications := AList.update question answer (clarifications self),
          updated_at := now\<rparr>"

definition ResearchContext_to_dict :: "(datetime \<Rightarrow> string) \<Rightarrow> ResearchContext \<Rightarrow> pyval" where
  "ResearchContext_to_dict isoformat self =
     PDict [(''query'', PStr (query self)),
            (''state'', PStr (ResearchState_value (state self))),
            (''clarifications'', PDict (map (\<lambda>(k, a). (k, PStr a)) (clarifications self))),
            (''findings'',
               PList (map (Finding_to_dict isoformat) (ResearchContext.findings self))),
            (''research_trails'',
               PList (map (ResearchTrail_to_dict isoformat) (research_trails self))),
            (''budget_used'', ResourceUsage_to_dict (budget_used self)),
            (''quality_scores'', PList (map QualityScore_to_dict (quality_scores self))),
            (''handoff_history'',
               PList (map (HandoffRecord_to_dict isoformat) (handoff_history self))),
            (''metadata'', PDict (ResearchContext.metadata self)),
            (''created_at'', PStr (isoformat (created_at self))),
            (''updated_at'', PStr (isoformat (updated_at self)))]"

definition ResearchContext_from_dict ::
  "(string \<Rightarrow> datetime option) \<Rightarrow> pyval \<Rightarrow> ResearchContext option" where
  "ResearchContext_from_dict fromisoformat v = do {
     data \<leftarrow> as_dict v;
     st \<leftarrow> required ''state'' (\<lambda>x. Option.bind (as_str x) ResearchState_of_value) data;
     fs \<leftarrow> optional ''findings''
             (\<lambda>x. Option.bind (as_list x) (map_option_list (Finding_from_dict fromisoformat)))
             [] data;
     rt \<leftarrow> optional ''research_trails''
             (\<lambda>x. Option.bind (as_list x)
                    (map_option_list (ResearchTrail_from_dict fromisoformat)))
             [] data;
     bu \<leftarrow> (case map_of data ''budget_used'' of
              None \<Rightarrow> ResourceUsage_from_dict (PDict [])
            | Some x \<Rightarrow> ResourceUsage_from_dict x);
     qs \<leftarrow> optional ''quality_scores''
             (\<lambda>x. Option.bind (as_list x) (map_option_list QualityScore_from_dict)) [] data;
     hh \<leftarrow> optional ''handoff_history''
             (\<lambda>x. Option.bind (as_list x)
                    (map_option_list (HandoffRecord_from_dict fromisoformat)))
             [] data;
     ca \<leftarrow> required ''created_at'' (\<lambda>x. Option.bind (as_str x) fromisoformat) data;
     ua \<leftarrow> required ''updated_at'' (\<lambda>x. Option.bind (as_str x) fromisoformat) data;
     _ \<leftarrow> kwargs_known
            [''query'', ''state'', ''clarifications'', ''findings'', ''research_trails'',
             ''budget_used'', ''quality_scores'', ''handoff_history'', ''metadata'',
             ''created_at'', ''updated_at''] data;
     q \<leftarrow> required ''query'' as_str data;
     cl \<leftarrow> optional ''clarifications'' as_str_dict [] data;
     md \<leftarrow> optional ''metadata'' as_dict [] data;
     Some \<lparr>query = q, state = st, clarifications = cl, ResearchContext.findings = fs,
           research_trails = rt, budget_used = bu, quality_scores = qs, handoff_history = hh,
           ResearchContext.metadata = md, created_at = ca, updated_at = ua\<rparr>
   }"

definition validate :: "ResearchContext \<Rightarrow> bool" where
  "validate self = (if query self = [] then False else True)"

section \<open>Workflow state machine (state_machine.py)\<close>

datatype StateTransitionError = StateTransitionError string

text \<open>The class-level table \<open>TRANSITIONS\<close>; every state is a key of it.\<close>

fun TRANSITIONS :: "ResearchState \<Rightarrow> ResearchState set" where
  "TRANSITIONS INITIALIZING = {CLARIFYING, ResearchState.PLANNING, FAILED}"
| "TRANSITIONS CLARIFYING = {ResearchState.PLANNING, FAILED}"
| "TRANSITIONS ResearchState.PLANNING = {ResearchState.SEARCHING, FAILED}"
| "TRANSITIONS ResearchState.SEARCHING = {EVALUATING, FAILED}"
| "TRANSITIONS EVALUATING = {TRAIL_FOLLOWING, SYNTHESIZING, ResearchState.SEARCHING, FAILED}"
| "TRANSITIONS TRAIL_FOLLOWING = {EVALUATING, SYNTHESIZING, FAILED}"
| "TRANSITIONS SYNTHESIZING = {ResearchState.COMPLETED, FAILED}"
| "TRANSITIONS ResearchState.COMPLETED = {}"
| "TRANSITIONS FAILED = {}"

text \<open>
  The machine holds a reference to the context and mutates it; here the context is a
  field of the machine. Logging is not modelled, so the reason given to \<open>transition\<close>,
  which is only logged, is left out.
\<close>

record ResearchStateMachine =
  context' :: ResearchContext
  state_history :: "ResearchState list"

definition ResearchStateMachine_new :: "ResearchContext \<Rightarrow> ResearchStateMachine" where
  "ResearchStateMachine_new ctx = \<lparr>context' = ctx, state_history = [state ctx]\<rparr>"

definition can_transition :: "ResearchStateMachine \<Rightarrow> ResearchState \<Rightarrow> bool" where
  "can_transition self to_state =
     (let current_state = state (context' self) in to_state \<in> TRANSITIONS current_state)"

text \<open>
  \<open>transition\<close> returns the outcome (\<open>Inl\<close>: the exception raised) and the machine as
  the call leaves it.
\<close>

definition transition ::
  "datetime \<Rightarrow> ResearchState \<Rightarrow> ResearchStateMachine
     \<Rightarrow> (StateTransitionError + unit) \<times> ResearchStateMachine" where
  "transition now to_state self =
     (let current_state = state (context' self)
      in if \<not> can_transition self to_state
         then (Inl (StateTransitionError
                      (''Invalid transition from '' @ ResearchState_value current_state
                         @ '' to '' @ ResearchState_value to_state)),
               self)
         else (Inr (),
               self\<lparr>context' := update_state now to_state (context' self),
                    state_history := state_history self @ [to_state]\<rparr>))"

definition get_valid_transitions :: "ResearchStateMachine \<Rightarrow> ResearchState set" where
  "get_valid_transitions self = TRANSITIONS (state (context' self))"

definition is_terminal_state :: "ResearchStateMachine \<Rightarrow> bool" where
  "is_terminal_state self \<longleftrightarrow> state (context' self) \<in> {ResearchState.COMPLETED, FAILED}"

definition force_fail :: "datetime \<Rightarrow> string \<Rightarrow> ResearchStateMachine \<Rightarrow> ResearchStateMachine" where
  "force_fail now why self =
     (let ctx = update_state now FAILED (context' self);
          ctx = ctx\<lparr>ResearchContext.metadata :=
                      AList.update ''failure_reason'' (PStr why) (ResearchContext.metadata ctx)\<rparr>
      in self\<lparr>context' := ctx, state_history := state_history self @ [FAILED]\<rparr>)"

section \<open>Strings\<close>

text \<open>
  \<open>str.lower()\<close> on ASCII text: the letters \<open>A\<close> to \<open>Z\<close> are mapped to \<open>a\<close> to
  \<open>z\<close>, every other character is kept. The length of the string does not change.
\<close>

definition lower_char :: "char \<Rightarrow> char" where
  "lower_char c =
     (let n = (of_char c :: nat)
      in if 65 \<le> n \<and> n \<le> 90 then char_of (n + 32) else c)"

definition lower :: "string \<Rightarrow> string" where
  "lower s = map lower_char s"

fun startswith :: "string \<Rightarrow> string \<Rightarrow> bool" where
  "startswith s [] = True"
| "startswith [] (p # ps) = False"
| "startswith (c # cs) (p # ps) = (c = p \<and> startswith cs ps)"

text \<open>\<open>s.find(sub)\<close>: the least index where \<open>sub\<close> starts, \<open>None\<close> for Python's -1.\<close>

fun find_sub :: "string \<Rightarrow> string \<Rightarrow> nat option" where
  "find_sub [] sub = (if sub = [] then Some 0 else None)"
| "find_sub (c # cs) sub =
     (if startswith (c # cs) sub then Some 0 else map_option Suc (find_sub cs sub))"

text \<open>The slice \<open>xs[:n]\<close>; a negative \<open>n\<close> counts from the end.\<close>

definition slice_to :: "int \<Rightarrow> 'a list \<Rightarrow> 'a list" where
  "slice_to n xs = (if 0 \<le> n then take (nat n) xs else take (length xs - nat (- n)) xs)"

section \<open>Trail manager (trail_manager.py)\<close>

text \<open>
  Trails are mutable objects shared between the manager's two lists and its callers. The
  store holds every trail object allocated so far; a reference is an index into it, below
  its length. The manager's lists hold references. \<open>uuid.uuid4()\<close> is an input of \<open>create_trail\<close>.
  Logging is not modelled; the \<open>reason\<close> of \<open>abandon_trail\<close> is only logged.
\<close>

type_synonym ref = nat

type_synonym store = "ResearchTrail list"

record TrailManager =
  max_concurrent_trails :: int
  active_trails :: "ref list"
  completed_trails :: "ref list"
  visited_queries :: "string set"
  breadcrumbs :: "string set"

definition TrailManager_new :: "int \<Rightarrow> TrailManager" where
  "TrailManager_new n =
     \<lparr>max_concurrent_trails = n, active_trails = [], completed_trails = [],
      visited_queries = {}, TrailManager.breadcrumbs = {}\<rparr>"

definition find_trail :: "store \<Rightarrow> TrailManager \<Rightarrow> string \<Rightarrow> ref option" where
  "find_trail h self trail_id =
     (case find (\<lambda>r. ResearchTrail.id (h ! r) = trail_id) (active_trails self) of
        Some r \<Rightarrow> Some r
      | None \<Rightarrow> find (\<lambda>r. ResearchTrail.id (h ! r) = trail_id) (completed_trails self))"

definition would_create_loop :: "TrailManager \<Rightarrow> string \<Rightarrow> bool" where
  "would_create_loop self q \<longleftrightarrow> lower q \<in> TrailManager.breadcrumbs self"

definition add_breadcrumb :: "TrailManager \<Rightarrow> string \<Rightarrow> TrailManager" where
  "add_breadcrumb self q =
     self\<lparr>TrailManager.breadcrumbs := insert (lower q) (TrailManager.breadcrumbs self)\<rparr>"

definition remove_breadcrumb :: "TrailManager \<Rightarrow> string \<Rightarrow> TrailManager" where
  "remove_breadcrumb self q =
     self\<lparr>TrailManager.breadcrumbs := TrailManager.breadcrumbs self - {lower q}\<rparr>"

definition create_trail ::
  "string \<Rightarrow> string \<Rightarrow> real \<Rightarrow> ResearchBudget \<Rightarrow> string option \<Rightarrow> store \<times> TrailManager
     \<Rightarrow> ref option \<times> store \<times> TrailManager" where
  "create_trail new_id q rel budget origin hm =
     (let (h, self) = hm
      in if would_create_loop self q then (None, h, self)
         else if lower q \<in> visited_queries self then (None, h, self)
         else if int (length (active_trails self)) \<ge> max_concurrent_trails self
         then (None, h, self)
         else
           (let trail = \<lparr>ResearchTrail.id = new_id, origin_finding_id = origin,
                          ResearchTrail.trail_query = q,
                          ResearchTrail.relevance_score = rel,
                          budget_allocated = budget, ResearchTrail.findings = [],
                          status = PENDING, ResearchTrail.breadcrumbs = []\<rparr>;
                r = length h
            in (Some r, h @ [trail],
                self\<lparr>active_trails := active_trails self @ [r],
                     visited_queries := insert (lower q) (visited_queries self)\<rparr>)))"

definition start_trail :: "string \<Rightarrow> store \<times> TrailManager \<Rightarrow> bool \<times> store \<times> TrailManager" where
  "start_trail trail_id hm =
     (let (h, self) = hm
      in case find_trail h self trail_id of
           None \<Rightarrow> (False, h, self)
         | Some r \<Rightarrow>
             if status (h ! r) \<noteq> PENDING then (False, h, self)
             else (True, h[r := (h ! r)\<lparr>status := ACTIVE\<rparr>],
                   add_breadcrumb self (ResearchTrail.trail_query (h ! r))))"

definition complete_trail :: "string \<Rightarrow> store \<times> TrailManager \<Rightarrow> bool \<times> store \<times> TrailManager" where
  "complete_trail trail_id hm =
     (let (h, self) = hm
      in case find_trail h self trail_id of
           None \<Rightarrow> (False, h, self)
         | Some r \<Rightarrow>
             (let h = h[r := (h ! r)\<lparr>status := TrailStatus.COMPLETED\<rparr>];
                  self = remove_breadcrumb self (ResearchTrail.trail_query (h ! r));
                  self = self\<lparr>active_trails :=
                           filter (\<lambda>t. ResearchTrail.id (h ! t) \<noteq> trail_id) (active_trails self)\<rparr>;
                  self = self\<lparr>completed_trails := completed_trails self @ [r]\<rparr>
              in (True, h, self)))"

definition abandon_trail ::
  "string \<Rightarrow> string \<Rightarrow> store \<times> TrailManager \<Rightarrow> bool \<times> store \<times> TrailManager" where
  "abandon_trail trail_id why hm =
     (let (h, self) = hm
      in case find_trail h self trail_id of
           None \<Rightarrow> (False, h, self)
         | Some r \<Rightarrow>
             (let h = h[r := (h ! r)\<lparr>status := ABANDONED\<rparr>];
                  self = remove_breadcrumb self (ResearchTrail.trail_query (h ! r));
                  self = self\<lparr>active_trails :=
                           filter (\<lambda>t. ResearchTrail.id (h ! t) \<noteq> trail_id) (active_trails self)\<rparr>;
                  self = self\<lparr>completed_trails := completed_trails self @ [r]\<rparr>
              in (True, h, self)))"

definition add_finding_to_trail ::
  "string \<Rightarrow> Finding \<Rightarrow> store \<times> TrailManager \<Rightarrow> bool \<times> store \<times> TrailManager" where
  "add_finding_to_trail trail_id finding hm =
     (let (h, self) = hm
      in case find_trail h self trail_id of
           None \<Rightarrow> (False, h, self)
         | Some r \<Rightarrow>
             (True,
              h[r := (h ! r)\<lparr>ResearchTrail.findings := ResearchTrail.findings (h ! r) @ [finding]\<rparr>],
              self))"

definition get_active_trails :: "store \<Rightarrow> TrailManager \<Rightarrow> ref list" where
  "get_active_trails h self = filter (\<lambda>t. status (h ! t) = ACTIVE) (active_trails self)"

definition get_pending_trails :: "store \<Rightarrow> TrailManager \<Rightarrow> ref list" where
  "get_pending_trails h self = filter (\<lambda>t. status (h ! t) = PENDING) (active_trails self)"

definition get_all_trails :: "TrailManager \<Rightarrow> ref list" where
  "get_all_trails self = active_trails self @ completed_trails self"

definition can_create_more_trails :: "TrailManager \<Rightarrow> bool" where
  "can_create_more_trails self \<longleftrightarrow>
     int (length (active_trails self)) < max_concurrent_trails self"

text \<open>The operations that write the manager or a trail, as events of a run.\<close>

datatype manager_op =
  Create string string real ResearchBudget "string option"
  | Start string
  | Complete string
  | Abandon string string
  | AddFinding string Finding

fun apply_op :: "manager_op \<Rightarrow> store \<times> TrailManager \<Rightarrow> store \<times> TrailManager" where
  "apply_op (Create new_id q rel b ofi) hm = snd (create_trail new_id q rel b ofi hm)"
| "apply_op (Start i) hm = snd (start_trail i hm)"
| "apply_op (Complete i) hm = snd (complete_trail i hm)"
| "apply_op (Abandon i why) hm = snd (abandon_trail i why hm)"
| "apply_op (AddFinding i f) hm = snd (add_finding_to_trail i f hm)"

fun run_ops :: "manager_op list \<Rightarrow> store \<times> TrailManager \<Rightarrow> store \<times> TrailManager" where
  "run_ops [] hm = hm"
| "run_ops (x # xs) hm = run_ops xs (apply_op x hm)"

section \<open>Agent registry (agent_registry.py)\<close>

text \<open>
  An exception carries its message, \<open>str(e)\<close>. The agent object and the call
  \<open>Runner.run\<close> belong to an external library: a registered agent is known by its id,
  and the runner is a parameter that gives, for an agent id and an input, the final output
  or the exception raised (a timeout included).
\<close>

datatype exn =
  KeyError string | ValueError string | RuntimeError string | TimeoutError string
  | Exception string

fun exn_str :: "exn \<Rightarrow> string" where
  "exn_str (KeyError s) = s"
| "exn_str (ValueError s) = s"
| "exn_str (RuntimeError s) = s"
| "exn_str (TimeoutError s) = s"
| "exn_str (Exception s) = s"

record AgentInfo =
  agent_id :: string
  capabilities :: "Capability list"
  description :: string
  is_available :: bool
  call_count :: int
  failure_count :: int

definition record_call :: "AgentInfo \<Rightarrow> AgentInfo" where
  "record_call self = self\<lparr>call_count := call_count self + 1\<rparr>"

definition record_failure :: "AgentInfo \<Rightarrow> AgentInfo" where
  "record_failure self = self\<lparr>failure_count := failure_count self + 1\<rparr>"

definition success_rate :: "AgentInfo \<Rightarrow> real" where
  "success_rate self =
     (let total = call_count self + failure_count self
      in if total = 0 then 1 else of_int (call_count self) / of_int total)"

record AgentRegistry =
  agents :: "(string \<times> AgentInfo) list"
  capability_map :: "Capability \<Rightarrow> string list"

definition AgentRegistry_new :: AgentRegistry where
  "AgentRegistry_new = \<lparr>agents = [], capability_map = (\<lambda>cap. [])\<rparr>"

definition register_agent ::
  "string \<Rightarrow> Capability list \<Rightarrow> string \<Rightarrow> AgentRegistry \<Rightarrow> AgentRegistry" where
  "register_agent aid caps descr self =
     (let agent_info = \<lparr>agent_id = aid, capabilities = caps, AgentInfo.description = descr,
                         is_available = True, call_count = 0, failure_count = 0\<rparr>
      in \<lparr>agents = AList.update aid agent_info (agents self),
          capability_map =
            foldl (\<lambda>cm capability.
                     if aid \<notin> set (cm capability)
                     then cm(capability := cm capability @ [aid]) else cm)
                  (capability_map self) caps\<rparr>)"

definition get_agent :: "AgentRegistry \<Rightarrow> string \<Rightarrow> AgentInfo option" where
  "get_agent self aid = map_of (agents self) aid"

text \<open>
  \<open>self._agents[aid]\<close> raises \<open>KeyError\<close> for an id that the capability map lists and
  the agent table lacks. \<open>list.sort\<close> is stable; with \<open>reverse=True\<close> elements of equal
  key keep their order, as a stable ascending sort on the negated key does.
\<close>

definition get_agent_for_capability ::
  "AgentRegistry \<Rightarrow> Capability \<Rightarrow> exn + AgentInfo option" where
  "get_agent_for_capability self capability =
     (let agent_ids = capability_map self capability
      in if agent_ids = [] then Inr None
         else (case map_option_list (map_of (agents self)) agent_ids of
                 None \<Rightarrow> Inl (KeyError ''agent id'')
               | Some infos \<Rightarrow>
                   (let available_agents = filter is_available infos
                    in if available_agents = [] then Inr None
                       else Inr (Some (hd (sort_key (\<lambda>a. - success_rate a) available_agents))))))"

definition invoke_agent_tool ::
  "(string \<Rightarrow> string \<Rightarrow> exn + string) \<Rightarrow> string \<Rightarrow> string \<Rightarrow> AgentRegistry
     \<Rightarrow> (exn + string) \<times> AgentRegistry" where
  "invoke_agent_tool runner aid input_data self =
     (case get_agent self aid of
        None \<Rightarrow> (Inl (ValueError (''Agent '' @ aid @ '' not found in registry'')), self)
      | Some agent_info \<Rightarrow>
          if \<not> is_available agent_info
          then (Inl (RuntimeError (''Agent '' @ aid @ '' is not available'')), self)
          else (case runner aid input_data of
                  Inr final_output \<Rightarrow>
                    (Inr final_output,
                     self\<lparr>agents := AList.update aid (record_call agent_info) (agents self)\<rparr>)
                | Inl e \<Rightarrow>
                    (Inl e,
                     self\<lparr>agents := AList.update aid (record_failure agent_info) (agents self)\<rparr>)))"

section \<open>Trail discovery (trail_discovery.py)\<close>

record ResearchTrailSuggestion =
  trail_query :: string
  relevance_score :: real
  reason :: string

record TrailDiscovery =
  min_relevance :: real
  discovered_trails :: "string set"

definition TrailDiscovery_new :: "real \<Rightarrow> TrailDiscovery" where
  "TrailDiscovery_new r = \<lparr>min_relevance = r, discovered_trails = {}\<rparr>"

definition tangent_indicators :: "string list" where
  "tangent_indicators =
     [''related to'', ''connected to'', ''similar to'', ''also known as'',
      ''see also'', ''further reading'', ''more information'',
      ''additionally'', ''furthermore'', ''moreover'']"

text \<open>The slice \<open>xs[a:b]\<close> for indices that are not negative.\<close>

definition slice :: "nat \<Rightarrow> nat \<Rightarrow> 'a list \<Rightarrow> 'a list" where
  "slice a b xs = take (b - a) (drop a xs)"

text \<open>
  For each indicator that occurs in the lower-cased content, in the order of the list, one
  suggestion; \<open>idx - 50\<close> on naturals is \<open>max(0, idx - 50)\<close>.
\<close>

definition extract_trails_from_finding ::
  "Finding \<Rightarrow> string \<Rightarrow> ResearchTrailSuggestion list" where
  "extract_trails_from_finding finding original_query =
     (let content_lower = lower (content finding)
      in concat (map (\<lambda>indicator.
           case find_sub content_lower indicator of
             None \<Rightarrow> []
           | Some idx \<Rightarrow>
               (let ctxt = slice (idx - 50) (min (length (content finding)) (idx + 100))
                                 (content finding)
                in [\<lparr>trail_query = ''More about: '' @ take 50 ctxt @ ''...'',
                     relevance_score = 7/10,
                     reason = ''Found related concept in finding from '' @ source finding\<rparr>]))
           tangent_indicators))"

definition discover_trails ::
  "string \<Rightarrow> Finding list \<Rightarrow> int \<Rightarrow> TrailDiscovery
     \<Rightarrow> ResearchTrailSuggestion list \<times> TrailDiscovery" where
  "discover_trails q fs max_trails self =
     (if fs = [] then ([], self)
      else
        (let trail_suggestions = concat (map (\<lambda>finding. extract_trails_from_finding finding q) fs);
             trail_suggestions =
               filter (\<lambda>t. lower (trail_query t) \<notin> discovered_trails self) trail_suggestions;
             trail_suggestions =
               filter (\<lambda>t. relevance_score t \<ge> min_relevance self) trail_suggestions;
             trail_suggestions = sort_key (\<lambda>t. - relevance_score t) trail_suggestions;
             trail_suggestions = slice_to max_trails trail_suggestions;
             self = foldl (\<lambda>d trail.
                             d\<lparr>discovered_trails :=
                                 insert (lower (trail_query trail)) (discovered_trails d)\<rparr>)
                          self trail_suggestions
         in (trail_suggestions, self)))"

section \<open>Trail execution (trail_execution.py)\<close>

record TrailExecutionEngine =
  trail_manager :: TrailManager
  agent_registry :: AgentRegistry

text \<open>
  The \<open>try\<close> block of \<open>_execute_trail_search\<close>: an exception of the registry or of the
  invoked agent leaves it as \<open>Inl\<close>. \<open>uuid.uuid4()\<close> and \<open>datetime.now()\<close> are inputs.
\<close>

definition execute_trail_search_body ::
  "(string \<Rightarrow> string \<Rightarrow> exn + string) \<Rightarrow> string \<Rightarrow> datetime \<Rightarrow> ResearchTrail \<Rightarrow> AgentRegistry
     \<Rightarrow> (exn + Finding option) \<times> AgentRegistry" where
  "execute_trail_search_body runner new_id now trail reg =
     (case get_agent_for_capability reg Capability.SEARCHING of
        Inl e \<Rightarrow> (Inl e, reg)
      | Inr None \<Rightarrow> (Inr None, reg)
      | Inr (Some search_agent_info) \<Rightarrow>
          (let search_input = ''Search term: '' @ ResearchTrail.trail_query trail
                                @ [CHR 0x0A] @ ''Reason: Exploring research trail''
           in case invoke_agent_tool runner (agent_id search_agent_info) search_input reg of
                (Inl e, reg) \<Rightarrow> (Inl e, reg)
              | (Inr result, reg) \<Rightarrow>
                  (Inr (Some \<lparr>Finding.id = new_id, content = result,
                              source = ''trail_search:'' @ ResearchTrail.trail_query trail,
                              Finding.timestamp = now, Finding.confidence = 7/10,
                              Finding.metadata =
                                [(''trail_id'', PStr (ResearchTrail.id trail)),
                                 (''trail_query'', PStr (ResearchTrail.trail_query trail))]\<rparr>),
                   reg)))"

text \<open>\<open>_execute_trail_search\<close>: \<open>except Exception\<close> logs and returns \<open>None\<close>.\<close>

definition execute_trail_search ::
  "(string \<Rightarrow> string \<Rightarrow> exn + string) \<Rightarrow> string \<Rightarrow> datetime \<Rightarrow> ResearchTrail \<Rightarrow> AgentRegistry
     \<Rightarrow> Finding option \<times> AgentRegistry" where
  "execute_trail_search runner new_id now trail reg =
     (case execute_trail_search_body runner new_id now trail reg of
        (Inr finding, reg) \<Rightarrow> (finding, reg)
      | (Inl e, reg) \<Rightarrow> (None, reg))"

definition search_op :: Operation where
  "search_op = \<lparr>name = ''trail_search'', estimated_tokens = 2000, estimated_api_calls = 1,
                estimated_time_seconds = 0\<rparr>"

text \<open>
  The \<open>try\<close> block of \<open>execute_trail\<close>, entered once the trail has been started. The
  argument \<open>trail\<close> is a reference \<open>r\<close> into the store (an index below its length);
  the manager finds its own object by the id of that trail. A dataclass instance is true,
  so \<open>if finding\<close> tests for \<open>None\<close>. No statement of the block raises: the search
  catches its own exceptions, and the budget and the manager only compare and update
  fields. The block's outcome is kept all the same, for the handler of \<open>execute_trail\<close>.
\<close>

definition execute_trail_body ::
  "(string \<Rightarrow> string \<Rightarrow> exn + string) \<Rightarrow> string \<Rightarrow> datetime \<Rightarrow> ref
     \<Rightarrow> store \<times> TrailExecutionEngine \<Rightarrow> (exn + unit) \<times> store \<times> TrailExecutionEngine" where
  "execute_trail_body runner new_id now r hs =
     (let (h, self) = hs
      in if \<not> can_afford (budget_allocated (h ! r)) search_op
         then (let (ok, h, tm) = abandon_trail (ResearchTrail.id (h ! r)) ''budget exhausted''
                                   (h, trail_manager self)
               in (Inr (), h, self\<lparr>trail_manager := tm\<rparr>))
         else
           (let (finding, reg) = execute_trail_search runner new_id now (h ! r)
                                   (agent_registry self);
                self = self\<lparr>agent_registry := reg\<rparr>;
                (h, self) =
                  (case finding of
                     None \<Rightarrow> (h, self)
                   | Some f \<Rightarrow>
                       (let h = h[r := (h ! r)\<lparr>ResearchTrail.findings :=
                                                ResearchTrail.findings (h ! r) @ [f]\<rparr>];
                            (ok, h, tm) = add_finding_to_trail (ResearchTrail.id (h ! r)) f
                                            (h, trail_manager self);
                            self = self\<lparr>trail_manager := tm\<rparr>;
                            h = h[r := (h ! r)\<lparr>budget_allocated :=
                                                consume (budget_allocated (h ! r)) search_op\<rparr>]
                        in (h, self)));
                (ok, h, tm) = complete_trail (ResearchTrail.id (h ! r)) (h, trail_manager self)
            in (Inr (), h, self\<lparr>trail_manager := tm\<rparr>)))"

text \<open>
  \<open>execute_trail\<close>: start the trail, run the \<open>try\<close> block, and on an exception abandon
  the trail with the exception's message. It returns the trail it was given.
\<close>

definition execute_trail ::
  "(string \<Rightarrow> string \<Rightarrow> exn + string) \<Rightarrow> string \<Rightarrow> datetime \<Rightarrow> ref
     \<Rightarrow> store \<times> TrailExecutionEngine \<Rightarrow> store \<times> TrailExecutionEngine" where
  "execute_trail runner new_id now r hs =
     (let (h, self) = hs;
          (started, h, tm) = start_trail (ResearchTrail.id (h ! r)) (h, trail_manager self);
          self = self\<lparr>trail_manager := tm\<rparr>
      in if \<not> started then (h, self)
         else (case execute_trail_body runner new_id now r (h, self) of
                 (Inr u, h, self) \<Rightarrow> (h, self)
               | (Inl e, h, self) \<Rightarrow>
                   (let (ok, h, tm) = abandon_trail (ResearchTrail.id (h ! r)) (exn_str e)
                                        (h, trail_manager self)
                    in (h, self\<lparr>trail_manager := tm\<rparr>))))"

section \<open>Properties of the budget\<close>

lemma consume_current_usage:
  "current_usage (consume B opn) =
     \<lparr>tokens_used = tokens_used (current_usage B) + estimated_tokens opn,
      api_calls = api_calls (current_usage B) + estimated_api_calls opn,
      time_seconds = time_seconds (current_usage B) + estimated_time_seconds opn\<rparr>"
  by (simp add: consume_def add_def to_usage_def)

lemma consume_caps:
  "max_tokens (consume B opn) = max_tokens B"
  "max_api_calls (consume B opn) = max_api_calls B"
  "max_time_seconds (consume B opn) = max_time_seconds B"
  by (simp_all add: consume_def)

lemma can_afford_iff:
  "can_afford B opn \<longleftrightarrow>
     tokens_used (current_usage B) + estimated_tokens opn \<le> max_tokens B \<and>
     api_calls (current_usage B) + estimated_api_calls opn \<le> max_api_calls B \<and>
     time_seconds (current_usage B) + estimated_time_seconds opn \<le> max_time_seconds B"
  by (auto simp: can_afford_def)



lemma py_int_scaled_le:
  assumes "0 \<le> r" and "0 < p" and "p \<le> 1"
  shows "py_int (of_int r * p) \<le> r"
proof -
  have nonneg: "0 \<le> of_int r * p"
    using assms by simp
  have "of_int r * p \<le> of_int r * 1"
    using assms by (intro mult_left_mono) simp_all
  then have "\<lfloor>of_int r * p\<rfloor> \<le> \<lfloor>(of_int r :: real)\<rfloor>"
    by (intro floor_mono) simp
  with nonneg show ?thesis
    by (simp add: py_int_def)
qed

lemma remaining_nonneg:
  "0 \<le> tokens_used (remaining B)" "0 \<le> api_calls (remaining B)"
  "0 \<le> time_seconds (remaining B)"
  by (simp_all add: remaining_def)



text \<open>
  C6, as stated, fails: the depth cap of a child is floored at 1, so it does not shrink
  toward zero. The development preset (cap 1) yields a child with cap 1 that can afford a
  trail, and so does that child's child; a parent whose cap is 0 even yields a child whose
  cap is larger.
\<close>

theorem allocate_for_trail_depth_counterexample:
  "max_trail_depth (allocate_for_trail create_development (1/5))
     = max_trail_depth create_development \<and>
   can_afford_trail (allocate_for_trail create_development (1/5)) \<and>
   max_trail_depth (allocate_for_trail (allocate_for_trail create_development (1/5)) (1/5)) = 1 \<and>
   can_afford_trail (allocate_for_trail (allocate_for_trail create_development (1/5)) (1/5)) \<and>
   max_trail_depth (ResearchBudget_new 1000 60 10 0)
     < max_trail_depth (allocate_for_trail (ResearchBudget_new 1000 60 10 0) (1/5))"
  by (simp add: allocate_for_trail_def ResearchBudget_new_def Let_def create_development_def
        can_afford_trail_def)

text \<open>
  C6, amended. The child's depth cap is \<open>max(1, parent.max_trail_depth -
  parent.trail_depth - 1)\<close> and its own depth is 0. The cap is at least 1, so a freshly
  allocated child can always afford a trail; it does not exceed the parent's cap when that
  cap is at least 1 and the parent's depth is not negative, and it is strictly smaller
  when the parent's cap is at least 2.
\<close>

theorem allocate_for_trail_depth_cap:
  "max_trail_depth (allocate_for_trail B p) = max 1 (max_trail_depth B - trail_depth B - 1) \<and>
   trail_depth (allocate_for_trail B p) = 0 \<and>
   1 \<le> max_trail_depth (allocate_for_trail B p) \<and>
   can_afford_trail (allocate_for_trail B p) \<and>
   (1 \<le> max_trail_depth B \<and> 0 \<le> trail_depth B
      \<longrightarrow> max_trail_depth (allocate_for_trail B p) \<le> max_trail_depth B) \<and>
   (2 \<le> max_trail_depth B \<and> 0 \<le> trail_depth B
      \<longrightarrow> max_trail_depth (allocate_for_trail B p) < max_trail_depth B)"
  by (simp add: allocate_for_trail_def ResearchBudget_new_def Let_def can_afford_trail_def)

theorem allocate_for_trail_depth_cap_witness:
  "max_trail_depth (allocate_for_trail create_default (1/5)) = 2 \<and>
   max_trail_depth (allocate_for_trail (allocate_for_trail create_default (1/5)) (1/5)) = 1 \<and>
   can_afford_trail (allocate_for_trail (allocate_for_trail create_default (1/5)) (1/5)) \<and>
   max_trail_depth (allocate_for_trail create_default (1/5)) < max_trail_depth create_default"
  using allocate_for_trail_depth_cap [of create_default "1/5"]
        allocate_for_trail_depth_cap [of "allocate_for_trail create_default (1/5)" "1/5"]
  by (simp add: create_default_def ResearchBudget_new_def)

text \<open>
  C10. A budget is exhausted exactly when the tokens used, the API calls or the time
  reach their cap. The trail depth and its cap have no influence: whatever they are, a
  budget whose three usages are under their caps is not exhausted. \<open>is_near_limit\<close>
  does count the depth: it holds as soon as the depth reaches the threshold's share of a
  positive depth cap.
\<close>

theorem is_exhausted_ignores_trail_depth:
  "(is_exhausted B \<longleftrightarrow>
      tokens_used (current_usage B) \<ge> max_tokens B \<or>
      api_calls (current_usage B) \<ge> max_api_calls B \<or>
      time_seconds (current_usage B) \<ge> max_time_seconds B) \<and>
   is_exhausted (B\<lparr>trail_depth := d, max_trail_depth := m\<rparr>) = is_exhausted B \<and>
   (tokens_used (current_usage B) < max_tokens B \<and>
    api_calls (current_usage B) < max_api_calls B \<and>
    time_seconds (current_usage B) < max_time_seconds B \<and>
    max_trail_depth B \<le> trail_depth B \<longrightarrow> \<not> is_exhausted B) \<and>
   (0 < max_trail_depth B \<and>
    threshold * of_int (max_trail_depth B) \<le> of_int (trail_depth B)
      \<longrightarrow> is_near_limit B threshold)"
proof -
  have near: "is_near_limit B threshold"
    if pos: "0 < max_trail_depth B"
      and le: "threshold * of_int (max_trail_depth B) \<le> of_int (trail_depth B)"
  proof -
    have "0 < (of_int (max_trail_depth B) :: real)"
      using pos by simp
    then have "threshold * 100 \<le> of_int (trail_depth B) / of_int (max_trail_depth B) * 100"
      using le by (simp add: field_simps)
    with pos show ?thesis
      by (simp add: is_near_limit_def utilization_percent_def)
  qed
  show ?thesis
    using near by (auto simp: is_exhausted_def)
qed

theorem is_exhausted_ignores_trail_depth_witness:
  "\<not> is_exhausted (create_development\<lparr>trail_depth := 1\<rparr>) \<and>
   max_trail_depth (create_development\<lparr>trail_depth := 1\<rparr>)
     \<le> trail_depth (create_development\<lparr>trail_depth := 1\<rparr>) \<and>
   is_near_limit (create_development\<lparr>trail_depth := 1\<rparr>) (9/10)"
  using is_exhausted_ignores_trail_depth
          [of "create_development\<lparr>trail_depth := 1\<rparr>" 0 0 "9/10"]
  by (simp add: create_development_def ResearchBudget_new_def ResourceUsage_default_def)

section \<open>Serialisation round trips\<close>

lemma map_option_list_roundtrip:
  assumes "\<And>x. x \<in> set xs \<Longrightarrow> f (g x) = Some x"
  shows "map_option_list f (map g xs) = Some xs"
  using assms by (induction xs) simp_all

lemma as_str_list_roundtrip: "as_str_list (PList (map PStr xs)) = Some xs"
  by (simp add: as_str_list_def map_option_list_roundtrip)

lemma as_str_dict_roundtrip: "as_str_dict (PDict (map (\<lambda>(k, a). (k, PStr a)) d)) = Some d"
  by (simp add: as_str_dict_def map_option_list_roundtrip split_beta)

lemma TrailStatus_value_roundtrip: "TrailStatus_of_value (TrailStatus_value s) = Some s"
  by (cases s) (simp_all add: TrailStatus_of_value_def)

lemma ResearchState_value_roundtrip: "ResearchState_of_value (ResearchState_value s) = Some s"
  by (cases s) (simp_all add: ResearchState_of_value_def)

lemmas dict_reader_defs = kwargs_known_def required_def optional_def

lemma ResourceUsage_roundtrip: "ResourceUsage_from_dict (ResourceUsage_to_dict u) = Some u"
  by (simp add: ResourceUsage_to_dict_def ResourceUsage_from_dict_def dict_reader_defs)

lemma Finding_roundtrip:
  assumes "fromisoformat (isoformat (Finding.timestamp f)) = Some (Finding.timestamp f)"
  shows "Finding_from_dict fromisoformat (Finding_to_dict isoformat f) = Some f"
  using assms by (simp add: Finding_to_dict_def Finding_from_dict_def dict_reader_defs)

lemma Gap_roundtrip: "Gap_from_dict (Gap_to_dict g) = Some g"
  by (simp add: Gap_to_dict_def Gap_from_dict_def dict_reader_defs as_str_list_roundtrip)

lemma QualityScore_roundtrip: "QualityScore_from_dict (QualityScore_to_dict q) = Some q"
  by (simp add: QualityScore_to_dict_def QualityScore_from_dict_def dict_reader_defs
        map_option_list_roundtrip Gap_roundtrip)

lemma HandoffRecord_roundtrip:
  assumes "fromisoformat (isoformat (HandoffRecord.timestamp r))
             = Some (HandoffRecord.timestamp r)"
  shows "HandoffRecord_from_dict fromisoformat (HandoffRecord_to_dict isoformat r) = Some r"
  using assms
  by (simp add: HandoffRecord_to_dict_def HandoffRecord_from_dict_def dict_reader_defs)

lemma ResearchBudget_roundtrip: "ResearchBudget_from_dict (ResearchBudget_to_dict b) = Some b"
  by (simp add: ResearchBudget_to_dict_def ResearchBudget_from_dict_def dict_reader_defs
        ResourceUsage_roundtrip)

lemma ResearchTrail_roundtrip:
  assumes "\<And>t. fromisoformat (isoformat t) = Some t"
  shows "ResearchTrail_from_dict fromisoformat (ResearchTrail_to_dict isoformat tr) = Some tr"
  by (simp add: ResearchTrail_to_dict_def ResearchTrail_from_dict_def dict_reader_defs
        ResearchBudget_roundtrip map_option_list_roundtrip Finding_roundtrip assms
        TrailStatus_value_roundtrip as_str_list_roundtrip split: option.splits)

lemma ResearchContext_roundtrip:
  assumes "\<And>t. fromisoformat (isoformat t) = Some t"
  shows "ResearchContext_from_dict fromisoformat (ResearchContext_to_dict isoformat c) = Some c"
  by (simp add: ResearchContext_to_dict_def ResearchContext_from_dict_def dict_reader_defs
        ResourceUsage_roundtrip map_option_list_roundtrip Finding_roundtrip assms
        ResearchTrail_roundtrip QualityScore_roundtrip HandoffRecord_roundtrip
        ResearchState_value_roundtrip as_str_dict_roundtrip)



section \<open>Properties of the workflow state machine\<close>

text \<open>
  C7. A transition to a state outside the edge set of the current state raises the
  invalid-transition error and leaves the machine, and with it the context's state, as it
  was. A transition to a state of the edge set succeeds, sets the context's state to the
  target and appends the target to the history.
\<close>

theorem transition_follows_table:
  "(to_state \<notin> TRANSITIONS (state (context' m)) \<longrightarrow>
      transition now to_state m
        = (Inl (StateTransitionError
                  (''Invalid transition from '' @ ResearchState_value (state (context' m))
                     @ '' to '' @ ResearchState_value to_state)), m)) \<and>
   (to_state \<in> TRANSITIONS (state (context' m)) \<longrightarrow>
      fst (transition now to_state m) = Inr () \<and>
      state (context' (snd (transition now to_state m))) = to_state \<and>
      state_history (snd (transition now to_state m)) = state_history m @ [to_state])"
  by (simp add: transition_def can_transition_def update_state_def Let_def)

theorem transition_follows_table_witness:
  "fst (transition (Datetime ''t1'') ResearchState.COMPLETED
          (ResearchStateMachine_new (ResearchContext_new (Datetime ''t0'') (Datetime ''t0'') ''q'')))
     = Inl (StateTransitionError ''Invalid transition from initializing to completed'') \<and>
   state (context' (snd (transition (Datetime ''t1'') ResearchState.COMPLETED
          (ResearchStateMachine_new (ResearchContext_new (Datetime ''t0'') (Datetime ''t0'') ''q'')))))
     = INITIALIZING \<and>
   fst (transition (Datetime ''t1'') ResearchState.PLANNING
          (ResearchStateMachine_new (ResearchContext_new (Datetime ''t0'') (Datetime ''t0'') ''q'')))
     = Inr () \<and>
   state (context' (snd (transition (Datetime ''t1'') ResearchState.PLANNING
          (ResearchStateMachine_new (ResearchContext_new (Datetime ''t0'') (Datetime ''t0'') ''q'')))))
     = ResearchState.PLANNING"
  using transition_follows_table
          [of ResearchState.COMPLETED
              "ResearchStateMachine_new (ResearchContext_new (Datetime ''t0'') (Datetime ''t0'') ''q'')"
              "Datetime ''t1''"]
        transition_follows_table
          [of ResearchState.PLANNING
              "ResearchStateMachine_new (ResearchContext_new (Datetime ''t0'') (Datetime ''t0'') ''q'')"
              "Datetime ''t1''"]
  by (simp add: ResearchStateMachine_new_def ResearchContext_new_def)

section \<open>Properties of the trail manager\<close>

lemma nth_update_in_range:
  "r < length h \<Longrightarrow> h[k := v] ! r = (if k = r then v else h ! r)"
  by auto

lemma apply_op_visited_mono:
  "visited_queries m \<subseteq> visited_queries (snd (apply_op x (h, m)))"
  by (cases x)
    (auto simp: create_trail_def start_trail_def complete_trail_def abandon_trail_def
       add_finding_to_trail_def add_breadcrumb_def remove_breadcrumb_def Let_def
       split: option.splits)

lemma run_ops_visited_mono:
  "visited_queries (snd hm) \<subseteq> visited_queries (snd (run_ops ops hm))"
proof (induction ops arbitrary: hm)
  case Nil
  show ?case by simp
next
  case (Cons x ops)
  obtain h m where hm: "hm = (h, m)" by (cases hm)
  have "visited_queries (snd hm) \<subseteq> visited_queries (snd (apply_op x hm))"
    unfolding hm by (simp add: apply_op_visited_mono)
  also have "\<dots> \<subseteq> visited_queries (snd (run_ops ops (apply_op x hm)))"
    by (rule Cons.IH)
  finally show ?case by simp
qed

lemma create_trail_rejects:
  assumes "lower q \<in> TrailManager.breadcrumbs m \<or> lower q \<in> visited_queries m \<or>
           max_concurrent_trails m \<le> int (length (active_trails m))"
  shows "create_trail nid q rel b ofi (h, m) = (None, h, m)"
  using assms by (auto simp: create_trail_def would_create_loop_def)

lemma create_trail_Some:
  assumes "create_trail nid q rel b ofi (h, m) = (Some r, ha, ma)"
  shows "lower q \<in> visited_queries ma" and "active_trails ma = active_trails m @ [r]"
  using assms by (auto simp: create_trail_def Let_def split: if_splits)

text \<open>
  C8. \<open>create_trail\<close> returns nothing and leaves the store and the manager (active
  list, visited set, breadcrumbs) as they were whenever the lower-cased query is a
  breadcrumb, or is in the visited set, or the active list has reached
  \<open>max_concurrent_trails\<close>; the relevance score plays no part. A query that was once
  created stays rejected after any further operations of the manager, whatever its case.
  On a new manager the first creation leaves one trail in the active list and a second
  creation with the same query in any case returns nothing and changes nothing.
\<close>

theorem create_trail_rejected:
  "(lower q \<in> TrailManager.breadcrumbs m \<or> lower q \<in> visited_queries m \<or>
    max_concurrent_trails m \<le> int (length (active_trails m))
      \<longrightarrow> create_trail nid q rel b ofi (h, m) = (None, h, m)) \<and>
   (create_trail nid q rel b ofi (h, m) = (Some r, ha, ma) \<and> lower q' = lower q \<and>
    run_ops ops (ha, ma) = (hb, mb)
      \<longrightarrow> create_trail nid' q' rel' b' ofi' (hb, mb) = (None, hb, mb)) \<and>
   (create_trail nid q rel b ofi (h, TrailManager_new n) = (Some r, ha, ma) \<and> lower q' = lower q
      \<longrightarrow> length (active_trails ma) = 1 \<and>
          create_trail nid' q' rel' b' ofi' (ha, ma) = (None, ha, ma))"
proof (intro conjI impI)
  assume "lower q \<in> TrailManager.breadcrumbs m \<or> lower q \<in> visited_queries m \<or>
    max_concurrent_trails m \<le> int (length (active_trails m))"
  then show "create_trail nid q rel b ofi (h, m) = (None, h, m)"
    by (rule create_trail_rejects)
next
  assume a: "create_trail nid q rel b ofi (h, m) = (Some r, ha, ma) \<and> lower q' = lower q \<and>
    run_ops ops (ha, ma) = (hb, mb)"
  then have "lower q' \<in> visited_queries ma"
    using create_trail_Some(1) by metis
  moreover have "visited_queries ma \<subseteq> visited_queries mb"
    using run_ops_visited_mono [of "(ha, ma)" ops] a by simp
  ultimately have "lower q' \<in> visited_queries mb" by blast
  then show "create_trail nid' q' rel' b' ofi' (hb, mb) = (None, hb, mb)"
    by (simp add: create_trail_rejects)
next
  assume a: "create_trail nid q rel b ofi (h, TrailManager_new n) = (Some r, ha, ma) \<and>
    lower q' = lower q"
  then show "length (active_trails ma) = 1"
    using create_trail_Some(2) [of nid q rel b ofi h "TrailManager_new n" r ha ma]
    by (simp add: TrailManager_new_def)
next
  assume a: "create_trail nid q rel b ofi (h, TrailManager_new n) = (Some r, ha, ma) \<and>
    lower q' = lower q"
  then have "lower q' \<in> visited_queries ma"
    using create_trail_Some(1) by metis
  then show "create_trail nid' q' rel' b' ofi' (ha, ma) = (None, ha, ma)"
    by (simp add: create_trail_rejects)
qed

theorem create_trail_rejected_witness:
  "fst (create_trail ''id1'' ''Test Trail'' (4/5) create_development None
          ([], TrailManager_new 2)) = Some 0 \<and>
   length (active_trails (snd (snd
      (create_trail ''id1'' ''Test Trail'' (4/5) create_development None
          ([], TrailManager_new 2))))) = 1 \<and>
   create_trail ''id2'' ''test trail'' (7/10) create_development None
      (snd (create_trail ''id1'' ''Test Trail'' (4/5) create_development None
              ([], TrailManager_new 2)))
     = (None, snd (create_trail ''id1'' ''Test Trail'' (4/5) create_development None
                     ([], TrailManager_new 2)))"
proof -
  define X where
    "X = create_trail ''id1'' ''Test Trail'' (4/5) create_development None
           ([], TrailManager_new 2)"
  have low: "lower ''test trail'' = lower ''Test Trail''"
    by code_simp
  have ref: "fst X = Some 0"
    by (simp add: X_def create_trail_def would_create_loop_def TrailManager_new_def Let_def)
  then have first: "X = (Some 0, fst (snd X), snd (snd X))"
    by (simp add: prod_eq_iff)
  have "length (active_trails (snd (snd X))) = 1 \<and>
        create_trail ''id2'' ''test trail'' (7/10) create_development None
          (fst (snd X), snd (snd X)) = (None, fst (snd X), snd (snd X))"
    using first low
      create_trail_rejected
        [where q = "''Test Trail''" and q' = "''test trail''" and nid = "''id1''"
           and rel = "4/5" and b = create_development and ofi = None and h = "[]" and n = 2
           and r = 0 and nid' = "''id2''" and rel' = "7/10" and b' = create_development
           and ofi' = None and ha = "fst (snd X)" and ma = "snd (snd X)"]
    unfolding X_def by blast
  with ref show ?thesis
    unfolding X_def by simp
qed

text \<open>
  C3, as stated, fails: \<open>complete_trail\<close> and \<open>abandon_trail\<close> do not look at the
  current status. A trail that was only created goes from PENDING straight to COMPLETED,
  or to ABANDONED, and a completed trail that is abandoned goes from COMPLETED to
  ABANDONED.
\<close>

theorem trail_lifecycle_counterexample:
  "status (fst (snd (create_trail ''id1'' ''test'' (4/5) create_development None
                       ([], TrailManager_new 3))) ! 0) = PENDING \<and>
   status (fst (run_ops
                  [Create ''id1'' ''test'' (4/5) create_development None,
                   Complete ''id1'']
                  ([], TrailManager_new 3)) ! 0) = TrailStatus.COMPLETED \<and>
   status (fst (run_ops
                  [Create ''id1'' ''test'' (4/5) create_development None,
                   Abandon ''id1'' ''test reason'']
                  ([], TrailManager_new 3)) ! 0) = ABANDONED \<and>
   status (fst (run_ops
                  [Create ''id1'' ''test'' (4/5) create_development None,
                   Complete ''id1'',
                   Abandon ''id1'' ''late'']
                  ([], TrailManager_new 3)) ! 0) = ABANDONED"
  by (simp add: create_trail_def would_create_loop_def TrailManager_new_def complete_trail_def
        abandon_trail_def find_trail_def remove_breadcrumb_def Let_def)

lemma run_ops_snoc: "run_ops (xs @ [x]) hm = apply_op x (run_ops xs hm)"
  by (induction xs arbitrary: hm) simp_all

lemma apply_op_status:
  assumes "apply_op x (h, m) = (h', m')" and "r < length h"
  shows "length h \<le> length h' \<and>
         (status (h' ! r) = status (h ! r) \<or>
          (\<exists>i. x = Start i \<and> status (h ! r) = PENDING \<and> status (h' ! r) = ACTIVE) \<or>
          (\<exists>i. x = Complete i \<and> status (h' ! r) = TrailStatus.COMPLETED) \<or>
          (\<exists>i w. x = Abandon i w \<and> status (h' ! r) = ABANDONED)) \<and>
         (\<forall>k. length h \<le> k \<and> k < length h' \<longrightarrow> status (h' ! k) = PENDING)"
proof (cases x)
  case (Create nid q rel b ofi)
  with assms show ?thesis
    by (auto simp: create_trail_def Let_def nth_append split: if_splits)
next
  case (Start i)
  with assms show ?thesis
    by (auto simp: start_trail_def Let_def nth_update_in_range split: option.splits if_splits)
next
  case (Complete i)
  with assms show ?thesis
    by (auto simp: complete_trail_def Let_def nth_update_in_range
          split: option.splits if_splits)
next
  case (Abandon i w)
  with assms show ?thesis
    by (auto simp: abandon_trail_def Let_def nth_update_in_range
          split: option.splits if_splits)
next
  case (AddFinding i f)
  with assms show ?thesis
    by (auto simp: add_finding_to_trail_def Let_def nth_update_in_range
          split: option.splits if_splits)
qed

text \<open>
  C3, amended. In every sequence of operations of the manager, one more operation changes
  the status of a trail only in these ways: \<open>start_trail\<close> takes it from PENDING to
  ACTIVE; \<open>complete_trail\<close> sets it to COMPLETED and \<open>abandon_trail\<close> sets it to
  ABANDONED, whatever it was before. No operation removes a trail from the store, and a
  trail that an operation adds is PENDING.
\<close>

theorem manager_status_changes:
  assumes "run_ops xs hm = (h, m)"
    and "run_ops (xs @ [x]) hm = (h', m')"
    and "r < length h"
  shows "length h \<le> length h' \<and>
         (status (h' ! r) = status (h ! r) \<or>
          (\<exists>i. x = Start i \<and> status (h ! r) = PENDING \<and> status (h' ! r) = ACTIVE) \<or>
          (\<exists>i. x = Complete i \<and> status (h' ! r) = TrailStatus.COMPLETED) \<or>
          (\<exists>i w. x = Abandon i w \<and> status (h' ! r) = ABANDONED)) \<and>
         (\<forall>k. length h \<le> k \<and> k < length h' \<longrightarrow> status (h' ! k) = PENDING)"
proof -
  from assms(1,2) have "apply_op x (h, m) = (h', m')"
    by (simp add: run_ops_snoc)
  then show ?thesis
    using assms(3) by (rule apply_op_status)
qed

theorem manager_status_changes_witness:
  "status (fst (run_ops [Create ''id1'' ''test'' (4/5) create_development None]
                  ([], TrailManager_new 3)) ! 0) = PENDING \<and>
   status (fst (run_ops ([Create ''id1'' ''test'' (4/5) create_development None]
                           @ [Start ''id1''])
                  ([], TrailManager_new 3)) ! 0) = ACTIVE \<and>
   length (fst (run_ops [Create ''id1'' ''test'' (4/5) create_development None]
                  ([], TrailManager_new 3)))
     \<le> length (fst (run_ops ([Create ''id1'' ''test'' (4/5) create_development None]
                                 @ [Start ''id1''])
                  ([], TrailManager_new 3)))"
proof -
  define S where
    "S = run_ops [Create ''id1'' ''test'' (4/5) create_development None]
           ([], TrailManager_new 3)"
  define T where
    "T = run_ops ([Create ''id1'' ''test'' (4/5) create_development None] @ [Start ''id1''])
           ([], TrailManager_new 3)"
  have a: "run_ops [Create ''id1'' ''test'' (4/5) create_development None]
             ([], TrailManager_new 3) = (fst S, snd S)"
    by (simp add: S_def)
  have b: "run_ops ([Create ''id1'' ''test'' (4/5) create_development None] @ [Start ''id1''])
             ([], TrailManager_new 3) = (fst T, snd T)"
    by (simp add: T_def)
  have c: "0 < length (fst S)"
    unfolding S_def
    by (simp add: create_trail_def would_create_loop_def TrailManager_new_def Let_def)
  have d: "status (fst S ! 0) = PENDING"
    unfolding S_def
    by (simp add: create_trail_def would_create_loop_def TrailManager_new_def Let_def)
  have e: "status (fst T ! 0) = ACTIVE"
    unfolding T_def
    by (simp add: create_trail_def would_create_loop_def TrailManager_new_def Let_def
          start_trail_def find_trail_def add_breadcrumb_def)
  show ?thesis
    using manager_status_changes [OF a b c] d e
    unfolding S_def T_def by blast
qed

section \<open>Properties of trail discovery\<close>

lemma discovered_foldl:
  "discovered_trails
     (foldl (\<lambda>d trail. d\<lparr>discovered_trails :=
                            insert (lower (trail_query trail)) (discovered_trails d)\<rparr>) self ts)
   = discovered_trails self \<union> (\<lambda>t. lower (trail_query t)) ` set ts"
  by (induction ts arbitrary: self) auto

lemma set_slice_to: "set (slice_to n xs) \<subseteq> set xs"
  by (auto simp: slice_to_def dest: in_set_takeD)

lemma discover_trails_result:
  assumes "discover_trails q fs n d = (r, d')"
  shows "discovered_trails d' = discovered_trails d \<union> (\<lambda>t. lower (trail_query t)) ` set r"
    and "\<forall>t \<in> set r. lower (trail_query t) \<notin> discovered_trails d \<and>
                       min_relevance d \<le> relevance_score t \<and>
                       t \<in> set (concat (map (\<lambda>finding. extract_trails_from_finding finding q) fs))"
proof -
  show "discovered_trails d' = discovered_trails d \<union> (\<lambda>t. lower (trail_query t)) ` set r"
    using assms by (auto simp: discover_trails_def Let_def discovered_foldl split: if_splits)
  show "\<forall>t \<in> set r. lower (trail_query t) \<notin> discovered_trails d \<and>
                       min_relevance d \<le> relevance_score t \<and>
                       t \<in> set (concat (map (\<lambda>finding. extract_trails_from_finding finding q) fs))"
  proof (cases "fs = []")
    case True
    with assms show ?thesis by (simp add: discover_trails_def)
  next
    case False
    with assms have r: "r = slice_to n (sort_key (\<lambda>t. - relevance_score t)
        (filter (\<lambda>t. min_relevance d \<le> relevance_score t)
          (filter (\<lambda>t. lower (trail_query t) \<notin> discovered_trails d)
            (concat (map (\<lambda>finding. extract_trails_from_finding finding q) fs)))))"
      by (simp add: discover_trails_def Let_def)
    show ?thesis
      unfolding r using set_slice_to by fastforce
  qed
qed




section \<open>Properties of trail execution\<close>

lemma id_update_status:
  "ResearchTrail.id (h[r := (h ! r)\<lparr>status := s\<rparr>] ! t) = ResearchTrail.id (h ! t)"
proof (cases "r < length h")
  case True
  then show ?thesis by (cases "t = r") simp_all
next
  case False
  then show ?thesis by (simp add: list_update_beyond)
qed

lemma find_trail_update_status:
  "find_trail (h[r := (h ! r)\<lparr>status := s\<rparr>]) m i = find_trail h m i"
  by (simp add: find_trail_def id_update_status cong: option.case_cong)

lemma find_trail_add_breadcrumb: "find_trail h (add_breadcrumb m q) i = find_trail h m i"
  by (simp add: find_trail_def add_breadcrumb_def cong: option.case_cong)

lemma complete_trail_found:
  assumes "find_trail h m i = Some r" and "r < length h"
  shows "complete_trail i (h, m) =
           (True, h[r := (h ! r)\<lparr>status := TrailStatus.COMPLETED\<rparr>],
            m\<lparr>TrailManager.breadcrumbs :=
                 TrailManager.breadcrumbs m - {lower (ResearchTrail.trail_query (h ! r))},
               active_trails := filter (\<lambda>t. ResearchTrail.id (h ! t) \<noteq> i) (active_trails m),
               completed_trails := completed_trails m @ [r]\<rparr>)"
  using assms
  by (simp add: complete_trail_def Let_def remove_breadcrumb_def id_update_status)

lemma search_body_invocation_fails:
  assumes "get_agent_for_capability reg Capability.SEARCHING = Inr (Some info)"
    and "invoke_agent_tool runner (agent_id info)
           (''Search term: '' @ ResearchTrail.trail_query trail @ [CHR 0x0A]
              @ ''Reason: Exploring research trail'') reg = (Inl ex, reg')"
  shows "execute_trail_search runner nid now trail reg = (None, reg')"
  using assms by (simp add: execute_trail_search_def execute_trail_search_body_def)

lemma execute_trail_no_finding:
  assumes r: "r < length h"
    and found: "find_trail h (trail_manager e) (ResearchTrail.id (h ! r)) = Some r"
    and pending: "status (h ! r) = PENDING"
    and afford: "can_afford (budget_allocated (h ! r)) search_op"
    and search: "execute_trail_search runner nid now ((h ! r)\<lparr>status := ACTIVE\<rparr>)
                   (agent_registry e) = (None, reg)"
  shows "execute_trail runner nid now r (h, e) =
           (h[r := (h ! r)\<lparr>status := TrailStatus.COMPLETED\<rparr>],
            e\<lparr>trail_manager :=
                 (trail_manager e)
                   \<lparr>active_trails :=
                      filter (\<lambda>t. ResearchTrail.id (h ! t) \<noteq> ResearchTrail.id (h ! r))
                        (active_trails (trail_manager e)),
                    completed_trails := completed_trails (trail_manager e) @ [r],
                    TrailManager.breadcrumbs :=
                      insert (lower (ResearchTrail.trail_query (h ! r)))
                        (TrailManager.breadcrumbs (trail_manager e))
                      - {lower (ResearchTrail.trail_query (h ! r))}\<rparr>,
               agent_registry := reg\<rparr>)"
proof -
  define h1 where "h1 = h[r := (h ! r)\<lparr>status := ACTIVE\<rparr>]"
  define tm1 where "tm1 = add_breadcrumb (trail_manager e) (ResearchTrail.trail_query (h ! r))"
  have h1r: "h1 ! r = (h ! r)\<lparr>status := ACTIVE\<rparr>"
    using r by (simp add: h1_def)
  have started: "start_trail (ResearchTrail.id (h ! r)) (h, trail_manager e) = (True, h1, tm1)"
    using found pending by (simp add: start_trail_def h1_def tm1_def)
  have found1: "find_trail h1 tm1 (ResearchTrail.id (h1 ! r)) = Some r"
    using found by (simp add: h1_def tm1_def find_trail_update_status find_trail_add_breadcrumb
        id_update_status)
  have completed:
    "complete_trail (ResearchTrail.id (h1 ! r)) (h1, tm1) =
       (True, h[r := (h ! r)\<lparr>status := TrailStatus.COMPLETED\<rparr>],
        (trail_manager e)
          \<lparr>active_trails :=
             filter (\<lambda>t. ResearchTrail.id (h ! t) \<noteq> ResearchTrail.id (h ! r))
               (active_trails (trail_manager e)),
           completed_trails := completed_trails (trail_manager e) @ [r],
           TrailManager.breadcrumbs :=
             insert (lower (ResearchTrail.trail_query (h ! r)))
               (TrailManager.breadcrumbs (trail_manager e))
             - {lower (ResearchTrail.trail_query (h ! r))}\<rparr>)"
  proof -
    have len: "r < length h1"
      using r by (simp add: h1_def)
    have ids: "ResearchTrail.id (h1 ! t) = ResearchTrail.id (h ! t)" for t
      unfolding h1_def by (rule id_update_status)
    show ?thesis
      unfolding complete_trail_found [OF found1 len]
      using r by (simp add: ids h1r) (simp add: h1_def tm1_def add_breadcrumb_def)
  qed
  have body:
    "execute_trail_body runner nid now r (h1, e\<lparr>trail_manager := tm1\<rparr>) =
       (Inr (), h[r := (h ! r)\<lparr>status := TrailStatus.COMPLETED\<rparr>],
        e\<lparr>trail_manager :=
             (trail_manager e)
               \<lparr>active_trails :=
                  filter (\<lambda>t. ResearchTrail.id (h ! t) \<noteq> ResearchTrail.id (h ! r))
                    (active_trails (trail_manager e)),
                completed_trails := completed_trails (trail_manager e) @ [r],
                TrailManager.breadcrumbs :=
                  insert (lower (ResearchTrail.trail_query (h ! r)))
                    (TrailManager.breadcrumbs (trail_manager e))
                  - {lower (ResearchTrail.trail_query (h ! r))}\<rparr>,
           agent_registry := reg\<rparr>)"
    using afford search completed
    by (simp add: execute_trail_body_def h1r)
  show ?thesis
    using started body by (simp add: execute_trail_def)
qed





end
